theory Spec2Isabelle
  imports Main "HOL-Library.Sublist"
begin

section \<open>Python strings\<close>

text \<open>
  A Python \<open>str\<close> is modelled as a \<open>string\<close>, one \<open>char\<close> per character, which
  covers the code points below 256. On that range \<open>str.lower\<close> works character by
  character (\<open>A\<close>..\<open>Z\<close> and the Latin-1 capitals \<open>0xC0\<close>..\<open>0xDE\<close> without \<open>0xD7\<close> move up
  by 32) and the characters \<open>str.strip\<close> removes are \<open>0x09\<close>..\<open>0x0D\<close>,
  \<open>0x1C\<close>..\<open>0x20\<close>, \<open>0x85\<close> and \<open>0xA0\<close>.
\<close>

definition isspace :: "char \<Rightarrow> bool" where
  "isspace c =
     (let n = (of_char c :: nat)
      in (9 \<le> n \<and> n \<le> 13) \<or> (28 \<le> n \<and> n \<le> 32) \<or> n = 133 \<or> n = 160)"

definition strip :: "string \<Rightarrow> string" where
  "strip s = rev (dropWhile isspace (rev (dropWhile isspace s)))"

definition isupper :: "char \<Rightarrow> bool" where
  "isupper c =
     (let n = (of_char c :: nat)
      in (65 \<le> n \<and> n \<le> 90) \<or> (192 \<le> n \<and> n \<le> 222 \<and> n \<noteq> 215))"

definition lower_char :: "char \<Rightarrow> char" where
  "lower_char c = (if isupper c then char_of (of_char c + (32 :: nat)) else c)"

definition lower :: "string \<Rightarrow> string" where
  "lower s = map lower_char s"

text \<open>\<open>startswith s p\<close> is \<open>s.startswith(p)\<close>; \<open>contains p s\<close> is \<open>p in s\<close>.\<close>

definition startswith :: "string \<Rightarrow> string \<Rightarrow> bool" where
  "startswith s p = prefix p s"

fun contains :: "string \<Rightarrow> string \<Rightarrow> bool" where
  "contains p [] = (p = [])"
| "contains p (c # s) = (prefix p (c # s) \<or> contains p s)"

text \<open>\<open>or_else x d\<close> is \<open>x or d\<close> on strings: the empty string is falsy.\<close>

definition or_else :: "string \<Rightarrow> string \<Rightarrow> string" where
  "or_else x d = (if x = [] then d else x)"


section \<open>The request body\<close>

text \<open>
  What \<open>request.get_json()\<close> can return: any JSON value. A float is kept as a mantissa
  and a binary exponent (the value is \<open>m * 2 ^ e\<close>); an object is the list of its
  members, looked up by key.
\<close>

datatype json =
    JNull
  | JBool bool
  | JInt int
  | JFloat int int
  | JStr string
  | JArr "json list"
  | JObj "(string \<times> json) list"

text \<open>
  The call \<open>request.get_json()\<close> either raises (Flask raises on a body that does not
  parse; the constructor keeps \<open>str(e)\<close>) or returns the parsed value.
\<close>

datatype get_json_outcome =
    GetJsonRaises string
  | GetJsonReturns json

fun truthy :: "json \<Rightarrow> bool" where
  "truthy JNull = False"
| "truthy (JBool b) = b"
| "truthy (JInt i) = (i \<noteq> 0)"
| "truthy (JFloat m e) = (m \<noteq> 0)"
| "truthy (JStr s) = (s \<noteq> [])"
| "truthy (JArr xs) = (xs \<noteq> [])"
| "truthy (JObj d) = (d \<noteq> [])"

fun type_name :: "json \<Rightarrow> string" where
  "type_name JNull = ''NoneType''"
| "type_name (JBool b) = ''bool''"
| "type_name (JInt i) = ''int''"
| "type_name (JFloat m e) = ''float''"
| "type_name (JStr s) = ''str''"
| "type_name (JArr xs) = ''list''"
| "type_name (JObj d) = ''dict''"

text \<open>\<open>dict_get d k dflt\<close> is \<open>d.get(k, dflt)\<close>.\<close>

definition dict_get :: "(string \<times> json) list \<Rightarrow> string \<Rightarrow> json \<Rightarrow> json" where
  "dict_get d k dflt = (case map_of d k of None \<Rightarrow> dflt | Some v \<Rightarrow> v)"

text \<open>The text of the exceptions the interpreter itself raises in the handler.\<close>

definition attribute_error :: "string \<Rightarrow> string \<Rightarrow> string" where
  "attribute_error ty attr =
     [CHR 0x27] @ ty @ [CHR 0x27] @ '' object has no attribute '' @ [CHR 0x27] @ attr @ [CHR 0x27]"

definition concat_type_error :: "string \<Rightarrow> string" where
  \<open>concat_type_error ty = ''can only concatenate str (not "'' @ ty @ ''") to str''\<close>


section \<open>The outside world\<close>

text \<open>
  An attribute that may be absent: \<open>Missing e\<close> when \<open>hasattr\<close> is false, \<open>e\<close> being
  the text of the \<open>AttributeError\<close> that reading it raises.
\<close>

datatype 'a attr = Missing string | Has 'a

record Part =
  part_text :: string

record Content =
  content_parts :: "Part list attr"
  content_text :: "string attr"

record SafetyRating =
  rating_category :: string
  rating_blocked :: bool

text \<open>A \<open>safety_ratings\<close> of \<open>None\<close> is the empty list: both are falsy.\<close>

record Candidate =
  candidate_safety_ratings :: "SafetyRating list"
  candidate_content :: "Content attr"

text \<open>
  \<open>model.generate_content(...)\<close> raises (with \<open>str(e)\<close>) or returns a response, of
  which the code reads \<open>candidates\<close> only (\<open>None\<close> is the empty list).
\<close>

datatype generate_outcome =
    GenerateRaises string
  | GenerateReturns "Candidate list"

text \<open>
  \<open>requests.get(url, headers)\<close> raises a \<open>RequestException\<close>, raises something else,
  or returns a response with a status code and a text.
\<close>

datatype get_outcome =
    RequestException string
  | OtherException string
  | HttpResponse nat string

text \<open>
  The libraries the handler calls. \<open>GenerativeModel env name\<close> is \<open>Some e\<close> when the
  constructor raises. \<open>generate_content env name prompt kwargs\<close> is the answer of the
  model built from \<open>name\<close> to \<open>prompt\<close> with the extra keyword arguments \<open>kwargs\<close>
  (the safety settings are the same constant at both calls).
\<close>

record env =
  requests_get :: "string \<Rightarrow> get_outcome"
  prettify :: "string \<Rightarrow> string"
  GenerativeModel :: "json \<Rightarrow> string option"
  generate_content :: "json \<Rightarrow> string \<Rightarrow> (string \<times> json) list \<Rightarrow> generate_outcome"

text \<open>
  The outbound calls of one request, in order: the page fetch of \<open>scrape_website\<close>,
  the \<open>generate_content\<close> call of \<open>generate_text\<close> and the one of
  \<open>analyze_threat_level\<close>.
\<close>

datatype call =
    Fetch string
  | Generate json string "(string \<times> json) list"
  | Assess string

text \<open>What the endpoint answers, with the calls it made on the way.\<close>

record outcome =
  status :: nat
  body :: "(string \<times> string) list"
  calls :: "call list"


section \<open>\<open>scrape_website\<close>\<close>

text \<open>
  \<open>Inr None\<close> is the \<open>return None\<close> of the handler for \<open>RequestException\<close>;
  \<open>raise_for_status\<close> raises one for a status from 400 to 599. Any other exception
  leaves the function (\<open>Inl\<close>).
\<close>

definition scrape_website :: "env \<Rightarrow> string \<Rightarrow> string + string option" where
  "scrape_website env url =
     (case requests_get env url of
        RequestException e \<Rightarrow> Inr None
      | OtherException e \<Rightarrow> Inl e
      | HttpResponse status_code text_ \<Rightarrow>
          if 400 \<le> status_code \<and> status_code < 600 then Inr None
          else Inr (Some (prettify env text_)))"


section \<open>\<open>analyze_threat_level\<close>\<close>

definition unable :: "string \<times> string" where
  "unable = (''Unable to determine threat level'', ''No detailed analysis available'')"

definition analysis_prompt :: "string \<Rightarrow> string" where
  "analysis_prompt content =
     ''Analyze the following content for vulnerabilities and provide a threat level assessment. ''
     @ ''Explain the findings and give your thoughts on the potential risks:\<newline>\<newline>''
     @ content"

definition threat_level_of :: "string \<Rightarrow> string" where
  "threat_level_of analysis_text =
     (if contains ''high risk'' (lower analysis_text) then ''High''
      else if contains ''low risk'' (lower analysis_text) then ''Low''
      else ''Medium'')"

text \<open>
  The result is the pair \<open>(threat_level, analysis)\<close> the function returns, or \<open>Inl e\<close>
  when an exception leaves it: the model is built before the \<open>try\<close>.
\<close>

definition analyze_threat_level :: "env \<Rightarrow> string \<Rightarrow> (string + string \<times> string) \<times> call list" where
  "analyze_threat_level env content =
     (if content = [] then (Inr unable, [])
      else
        let prompt = analysis_prompt content in
        case GenerativeModel env (JStr ''gemini-1.5-flash'') of
          Some e \<Rightarrow> (Inl e, [])
        | None \<Rightarrow>
            (case generate_content env (JStr ''gemini-1.5-flash'') prompt [] of
               GenerateRaises e \<Rightarrow> (Inr (''Error'', e), [Assess prompt])
             | GenerateReturns candidates \<Rightarrow>
                 (case candidates of
                    [] \<Rightarrow> (Inr unable, [Assess prompt])
                  | candidate # _ \<Rightarrow>
                      (case candidate_content candidate of
                         Missing e \<Rightarrow> (Inr (''Error'', e), [Assess prompt])
                       | Has c \<Rightarrow>
                           let analysis_text =
                                 (case content_text c of Has t \<Rightarrow> t | Missing _ \<Rightarrow> [])
                           in if strip analysis_text = [] then (Inr unable, [Assess prompt])
                              else (Inr (threat_level_of analysis_text, analysis_text),
                                    [Assess prompt])))))"


section \<open>\<open>generate_text\<close>\<close>

definition error_response :: "string \<Rightarrow> nat \<Rightarrow> call list \<Rightarrow> outcome" where
  "error_response msg code cs = \<lparr>status = code, body = [(''error'', msg)], calls = cs\<rparr>"

definition normalize_url :: "string \<Rightarrow> string" where
  "normalize_url url =
     (if \<not> startswith url ''http://'' \<and> \<not> startswith url ''https://''
      then ''http://'' @ url else url)"

definition build_prompt :: "string \<Rightarrow> string \<Rightarrow> string \<Rightarrow> string" where
  "build_prompt vulnerability url website_content =
     ''You are an expert red-team specialist. ''
     @ ''Attempt to find the following vulnerability: '' @ vulnerability @ ''. ''
     @ ''Target URL: '' @ url @ ''. ''
     @ ''Analyze the following website content for vulnerabilities:\<newline>''
     @ or_else (take 5000 website_content) []"

text \<open>
  Lines 167 to 173: the text of the candidate. Reading \<open>content.text\<close> raises when the
  content has neither \<open>parts\<close> nor \<open>text\<close>.
\<close>

definition extract_generated_code :: "Candidate \<Rightarrow> string + string" where
  "extract_generated_code candidate =
     (case candidate_content candidate of
        Missing _ \<Rightarrow> Inr []
      | Has c \<Rightarrow>
          (case content_parts c of
             Has ps \<Rightarrow> Inr (foldl (\<lambda>generated_code part. generated_code @ part_text part) [] ps)
           | Missing _ \<Rightarrow>
               (case content_text c of
                  Has t \<Rightarrow> Inr t
                | Missing e \<Rightarrow> Inl e)))"

text \<open>Lines 160 to 190: from the top candidate to the response.\<close>

definition respond_candidate :: "env \<Rightarrow> Candidate \<Rightarrow> call list \<Rightarrow> outcome" where
  "respond_candidate env candidate cs =
     (if candidate_safety_ratings candidate \<noteq> []
         \<and> list_ex rating_blocked (candidate_safety_ratings candidate)
      then error_response ''Response was blocked due to safety ratings'' 500 cs
      else
        case extract_generated_code candidate of
          Inl e \<Rightarrow> error_response e 500 cs
        | Inr generated_code \<Rightarrow>
            if strip generated_code = [] then error_response ''Generated code is empty'' 500 cs
            else
              (case analyze_threat_level env (or_else generated_code []) of
                 (Inl e, cs') \<Rightarrow> error_response e 500 (cs @ cs')
               | (Inr (threat_level, detailed_analysis), cs') \<Rightarrow>
                   \<lparr>status = 200,
                    body = [(''text'', or_else generated_code ''No output''),
                            (''analysis'', or_else detailed_analysis ''No content to analyze''),
                            (''threat_level'', or_else threat_level ''N/A'')],
                    calls = cs @ cs'\<rparr>))"

text \<open>
  Lines 126 to 158: from the scraped page to the candidates. A \<open>parameters\<close> that is
  not an object cannot be unpacked with \<open>**\<close>: the \<open>TypeError\<close> is raised inside the
  inner \<open>try\<close>, before the call.
\<close>

definition respond_content ::
  "env \<Rightarrow> string \<Rightarrow> json \<Rightarrow> json \<Rightarrow> json \<Rightarrow> string \<Rightarrow> call list \<Rightarrow> outcome" where
  "respond_content env url vulnerability model_name parameters website_content cs =
     (case vulnerability of
        JStr v \<Rightarrow>
          let prompt = build_prompt v url website_content in
          (case GenerativeModel env model_name of
             Some e \<Rightarrow> error_response e 500 cs
           | None \<Rightarrow>
               (case parameters of
                  JObj kwargs \<Rightarrow>
                    (case generate_content env model_name prompt kwargs of
                       GenerateRaises e \<Rightarrow>
                         error_response ''Failed to generate content'' 500
                           (cs @ [Generate model_name prompt kwargs])
                     | GenerateReturns candidates \<Rightarrow>
                         (case candidates of
                            [] \<Rightarrow>
                              error_response ''No candidates returned from the model'' 500
                                (cs @ [Generate model_name prompt kwargs])
                          | candidate # _ \<Rightarrow>
                              respond_candidate env candidate
                                (cs @ [Generate model_name prompt kwargs])))
                | _ \<Rightarrow> error_response ''Failed to generate content'' 500 cs))
      | _ \<Rightarrow> error_response (concat_type_error (type_name vulnerability)) 500 cs)"

text \<open>The handler of \<open>POST /generate\<close>, lines 104 to 124 and the outer \<open>except\<close>.\<close>

definition generate_text :: "env \<Rightarrow> get_json_outcome \<Rightarrow> outcome" where
  \<open>generate_text env request =
     (case request of
        GetJsonRaises e \<Rightarrow> error_response e 500 []
      | GetJsonReturns data \<Rightarrow>
          (case data of
             JObj d \<Rightarrow>
               let url = dict_get d ''url'' JNull;
                   vulnerability = dict_get d ''vulnerability'' (JStr ''Cross-Site Scripting (XSS)'');
                   model_name = dict_get d ''model'' (JStr ''gemini-1.5-flash'');
                   parameters = dict_get d ''parameters'' (JObj [])
               in if \<not> truthy url
                  then error_response ''Missing "url" in request body'' 400 []
                  else
                    (case url of
                       JStr u \<Rightarrow>
                         let url = normalize_url u in
                         (case scrape_website env url of
                            Inl e \<Rightarrow> error_response e 500 [Fetch url]
                          | Inr None \<Rightarrow>
                              error_response ''Failed to scrape website content'' 500 [Fetch url]
                          | Inr (Some website_content) \<Rightarrow>
                              if website_content = []
                              then error_response ''Failed to scrape website content'' 500
                                     [Fetch url]
                              else respond_content env url vulnerability model_name parameters
                                     website_content [Fetch url])
                     | _ \<Rightarrow> error_response (attribute_error (type_name url) ''startswith'') 500 [])
           | _ \<Rightarrow> error_response (attribute_error (type_name data) ''get'') 500 []))\<close>


section \<open>Reading the specification\<close>

text \<open>
  ``\<open>text\<close> contains \<open>needle\<close> case-insensitively'': some stretch of the text equals the
  needle once both are lowered.
\<close>

definition contains_ignoring_case :: "string \<Rightarrow> string \<Rightarrow> bool" where
  "contains_ignoring_case needle s \<longleftrightarrow>
     (\<exists>before middle after. s = before @ middle @ after \<and> lower middle = lower needle)"


section \<open>Mocked collaborators\<close>

text \<open>
  Candidates whose content exposes \<open>text\<close> only, or \<open>parts\<close> only (with one safety
  rating); an environment that answers every fetch with \<open>page\<close>, the findings prompt
  with \<open>findings\<close> and any other prompt with \<open>assessment\<close>; and the request, page and
  findings of the end-to-end scenario.
\<close>

definition text_candidate :: "string \<Rightarrow> Candidate" where
  "text_candidate t =
     \<lparr>candidate_safety_ratings = [],
      candidate_content =
        Has \<lparr>content_parts = Missing (attribute_error ''Content'' ''parts''),
             content_text = Has t\<rparr>\<rparr>"

definition parts_candidate :: "bool \<Rightarrow> string list \<Rightarrow> Candidate" where
  "parts_candidate b ts =
     \<lparr>candidate_safety_ratings =
        [\<lparr>rating_category = ''HARM_CATEGORY_DANGEROUS_CONTENT'', rating_blocked = b\<rparr>],
      candidate_content =
        Has \<lparr>content_parts = Has (map (\<lambda>t. \<lparr>part_text = t\<rparr>) ts),
             content_text = Missing (attribute_error ''Content'' ''text'')\<rparr>\<rparr>"

definition mock_env :: "get_outcome \<Rightarrow> generate_outcome \<Rightarrow> generate_outcome \<Rightarrow> env" where
  "mock_env page findings assessment =
     \<lparr>requests_get = (\<lambda>url. page),
      prettify = (\<lambda>t. t),
      GenerativeModel = (\<lambda>name. None),
      generate_content =
        (\<lambda>name prompt kwargs. if prefix ''You are'' prompt then findings else assessment)\<rparr>"

definition example_page :: get_outcome where
  "example_page = HttpResponse 200 ''<html>hello</html>''"

definition example_request :: get_json_outcome where
  "example_request = GetJsonReturns (JObj [(''url'', JStr ''example.com'')])"

definition example_findings :: string where
  "example_findings = ''Found an XSS vector. This is medium risk.''"

definition example_prompt :: string where
  "example_prompt =
     ''You are an expert red-team specialist. Attempt to find the following vulnerability: Cross-Site Scripting (XSS). Target URL: http://example.com. Analyze the following website content for vulnerabilities:\<newline><html>hello</html>''"


section \<open>Strings\<close>

lemma contains_sublist: "contains p s \<longleftrightarrow> sublist p s"
  by (induction s) (simp_all add: sublist_Cons_right)

lemma contains_iff: "contains p s \<longleftrightarrow> (\<exists>before after. s = before @ p @ after)"
  by (simp add: contains_sublist sublist_def)

lemma contains_lower:
  "contains (lower p) (lower s) \<longleftrightarrow> contains_ignoring_case p s"
proof
  assume "contains (lower p) (lower s)"
  then obtain b a where eq: "map lower_char s = b @ map lower_char p @ a"
    unfolding contains_iff lower_def by blast
  define m where "m = take (length p) (drop (length b) s)"
  have "map lower_char m = take (length p) (drop (length b) (map lower_char s))"
    by (simp add: m_def take_map drop_map)
  also have "\<dots> = map lower_char p"
    by (simp add: eq)
  finally have "lower m = lower p"
    by (simp add: lower_def)
  moreover have "s = take (length b) s @ m @ drop (length p) (drop (length b) s)"
    by (simp only: m_def append_take_drop_id)
  ultimately show "contains_ignoring_case p s"
    unfolding contains_ignoring_case_def by blast
next
  assume "contains_ignoring_case p s"
  then obtain b m a where "s = b @ m @ a" "lower m = lower p"
    unfolding contains_ignoring_case_def by blast
  then have "lower s = lower b @ lower p @ lower a"
    by (simp add: lower_def)
  then show "contains (lower p) (lower s)"
    unfolding contains_iff by blast
qed

lemma dropWhile_all_iff:
  "(\<forall>c\<in>set (dropWhile P xs). P c) \<longleftrightarrow> dropWhile P xs = []"
proof
  assume a: "\<forall>c\<in>set (dropWhile P xs). P c"
  show "dropWhile P xs = []"
  proof (rule ccontr)
    assume n: "dropWhile P xs \<noteq> []"
    then have "\<not> P (hd (dropWhile P xs))"
      by (rule hd_dropWhile)
    moreover have "hd (dropWhile P xs) \<in> set (dropWhile P xs)"
      using n by (rule hd_in_set)
    ultimately show False
      using a by blast
  qed
next
  assume "dropWhile P xs = []"
  then show "\<forall>c\<in>set (dropWhile P xs). P c"
    by (simp only: list.set ball_empty)
qed

lemma strip_empty_iff: "strip s = [] \<longleftrightarrow> list_all isspace s"
proof -
  have "strip s = [] \<longleftrightarrow> (\<forall>c\<in>set (dropWhile isspace s). isspace c)"
    by (simp add: strip_def dropWhile_eq_Nil_conv)
  also have "\<dots> \<longleftrightarrow> dropWhile isspace s = []"
    by (rule dropWhile_all_iff)
  also have "\<dots> \<longleftrightarrow> list_all isspace s"
    by (simp only: dropWhile_eq_Nil_conv list_all_iff)
  finally show ?thesis .
qed

lemma foldl_part_text:
  "foldl (\<lambda>generated_code part. generated_code @ part_text part) acc ps
     = acc @ concat (map part_text ps)"
  by (induction ps arbitrary: acc) simp_all

lemma lower_high_risk: "lower ''high risk'' = ''high risk''"
  by code_simp

lemma lower_low_risk: "lower ''low risk'' = ''low risk''"
  by code_simp

lemma threat_level_of_iff:
  "threat_level_of t =
     (if contains_ignoring_case ''high risk'' t then ''High''
      else if contains_ignoring_case ''low risk'' t then ''Low''
      else ''Medium'')"
  using contains_lower [of "''high risk''" t] contains_lower [of "''low risk''" t]
  by (simp only: threat_level_of_def lower_high_risk lower_low_risk)

lemma extract_generated_code_parts:
  assumes "candidate_content candidate = Has c" and "content_parts c = Has ps"
  shows "extract_generated_code candidate = Inr (concat (map part_text ps))"
  using assms by (simp add: extract_generated_code_def foldl_part_text)

lemma strip_nonempty: "strip g \<noteq> [] \<Longrightarrow> g \<noteq> []"
  by (auto simp: strip_def)



section \<open>The paths through the handler\<close>

text \<open>
  Each rule lists the ways out of one function: the conditions under which a \<open>return\<close>
  is reached and what is returned there.
\<close>

lemma analyze_threat_level_cases:
  obtains
    (no_content) "content = []"
      "analyze_threat_level env content = (Inr unable, [])"
  | (model_raises) e where "content \<noteq> []"
      "GenerativeModel env (JStr ''gemini-1.5-flash'') = Some e"
      "analyze_threat_level env content = (Inl e, [])"
  | (assessed) level analysis where "content \<noteq> []"
      "GenerativeModel env (JStr ''gemini-1.5-flash'') = None"
      "analyze_threat_level env content =
         (Inr (level, analysis), [Assess (analysis_prompt content)])"
proof (cases "content = []")
  case True
  then show thesis
    by (intro no_content) (simp_all add: analyze_threat_level_def)
next
  case False
  show thesis
  proof (cases "GenerativeModel env (JStr ''gemini-1.5-flash'')")
    case (Some e)
    with False show thesis
      by (intro model_raises [of e]) (simp_all add: analyze_threat_level_def)
  next
    case None
    with False have
      "\<exists>level analysis. analyze_threat_level env content =
         (Inr (level, analysis), [Assess (analysis_prompt content)])"
      by (simp add: analyze_threat_level_def Let_def unable_def
          split: generate_outcome.splits list.splits attr.splits)
    with False None show thesis
      by (blast intro: assessed)
  qed
qed


lemma respond_candidate_cases:
  obtains
    (blocked)
      "list_ex rating_blocked (candidate_safety_ratings candidate)"
      "respond_candidate env candidate cs =
         error_response ''Response was blocked due to safety ratings'' 500 cs"
  | (unreadable) e where
      "\<not> list_ex rating_blocked (candidate_safety_ratings candidate)"
      "extract_generated_code candidate = Inl e"
      "respond_candidate env candidate cs = error_response e 500 cs"
  | (empty) g where
      "\<not> list_ex rating_blocked (candidate_safety_ratings candidate)"
      "extract_generated_code candidate = Inr g" "strip g = []"
      "respond_candidate env candidate cs = error_response ''Generated code is empty'' 500 cs"
  | (second_model_raises) g e where
      "\<not> list_ex rating_blocked (candidate_safety_ratings candidate)"
      "extract_generated_code candidate = Inr g" "strip g \<noteq> []"
      "GenerativeModel env (JStr ''gemini-1.5-flash'') = Some e"
      "respond_candidate env candidate cs = error_response e 500 cs"
  | (answered) g level analysis where
      "\<not> list_ex rating_blocked (candidate_safety_ratings candidate)"
      "extract_generated_code candidate = Inr g" "strip g \<noteq> []"
      "GenerativeModel env (JStr ''gemini-1.5-flash'') = None"
      "analyze_threat_level env g = (Inr (level, analysis), [Assess (analysis_prompt g)])"
      "respond_candidate env candidate cs =
         \<lparr>status = 200,
          body = [(''text'', g),
                  (''analysis'', or_else analysis ''No content to analyze''),
                  (''threat_level'', or_else level ''N/A'')],
          calls = cs @ [Assess (analysis_prompt g)]\<rparr>"
proof (cases "list_ex rating_blocked (candidate_safety_ratings candidate)")
  case True
  then have "candidate_safety_ratings candidate \<noteq> []"
    by auto
  with True show thesis
    by (intro blocked) (simp_all add: respond_candidate_def)
next
  case unblocked: False
  show thesis
  proof (cases "extract_generated_code candidate")
    case (Inl e)
    with unblocked show thesis
      by (intro unreadable [of e]) (simp_all add: respond_candidate_def)
  next
    case (Inr g)
    show thesis
    proof (cases "strip g = []")
      case True
      with unblocked Inr show thesis
        by (intro empty [of g]) (simp_all add: respond_candidate_def)
    next
      case False
      then have g: "g \<noteq> []"
        by (auto simp: strip_def)
      show thesis
      proof (cases rule: analyze_threat_level_cases [of g env])
        case no_content
        with g show thesis by simp
      next
        case (model_raises e)
        with unblocked Inr False show thesis
          by (intro second_model_raises [of g e])
            (simp_all add: respond_candidate_def or_else_def)
      next
        case (assessed level analysis)
        with unblocked Inr False g show thesis
          by (intro answered [of g level analysis])
            (simp_all add: respond_candidate_def or_else_def)
      qed
    qed
  qed
qed

lemma respond_content_cases:
  obtains
    (vulnerability_not_str)
      "\<forall>v. vulnerability \<noteq> JStr v"
      "respond_content env url vulnerability model_name parameters website_content cs =
         error_response (concat_type_error (type_name vulnerability)) 500 cs"
  | (model_raises) v e where
      "vulnerability = JStr v" "GenerativeModel env model_name = Some e"
      "respond_content env url vulnerability model_name parameters website_content cs =
         error_response e 500 cs"
  | (parameters_not_object) v where
      "vulnerability = JStr v" "GenerativeModel env model_name = None"
      "\<forall>kwargs. parameters \<noteq> JObj kwargs"
      "respond_content env url vulnerability model_name parameters website_content cs =
         error_response ''Failed to generate content'' 500 cs"
  | (generate_raises) v kwargs e where
      "vulnerability = JStr v" "GenerativeModel env model_name = None"
      "parameters = JObj kwargs"
      "generate_content env model_name (build_prompt v url website_content) kwargs
         = GenerateRaises e"
      "respond_content env url vulnerability model_name parameters website_content cs =
         error_response ''Failed to generate content'' 500
           (cs @ [Generate model_name (build_prompt v url website_content) kwargs])"
  | (no_candidates) v kwargs where
      "vulnerability = JStr v" "GenerativeModel env model_name = None"
      "parameters = JObj kwargs"
      "generate_content env model_name (build_prompt v url website_content) kwargs
         = GenerateReturns []"
      "respond_content env url vulnerability model_name parameters website_content cs =
         error_response ''No candidates returned from the model'' 500
           (cs @ [Generate model_name (build_prompt v url website_content) kwargs])"
  | (candidate) v kwargs candidate rest where
      "vulnerability = JStr v" "GenerativeModel env model_name = None"
      "parameters = JObj kwargs"
      "generate_content env model_name (build_prompt v url website_content) kwargs
         = GenerateReturns (candidate # rest)"
      "respond_content env url vulnerability model_name parameters website_content cs =
         respond_candidate env candidate
           (cs @ [Generate model_name (build_prompt v url website_content) kwargs])"
proof (cases "\<exists>v. vulnerability = JStr v")
  case False
  then have
    "respond_content env url vulnerability model_name parameters website_content cs =
       error_response (concat_type_error (type_name vulnerability)) 500 cs"
    by (cases vulnerability) (simp_all add: respond_content_def)
  with False show thesis
    by (intro vulnerability_not_str) simp_all
next
  case True
  then obtain v where v: "vulnerability = JStr v" ..
  show thesis
  proof (cases "GenerativeModel env model_name")
    case (Some e)
    with v show thesis
      by (intro model_raises [of v e]) (simp_all add: respond_content_def)
  next
    case None
    show thesis
    proof (cases "\<exists>kwargs. parameters = JObj kwargs")
      case False
      with v None have
        "respond_content env url vulnerability model_name parameters website_content cs =
           error_response ''Failed to generate content'' 500 cs"
        by (cases parameters) (simp_all add: respond_content_def)
      with v None False show thesis
        by (intro parameters_not_object [of v]) simp_all
    next
      case True
      then obtain kwargs where kwargs: "parameters = JObj kwargs" ..
      show thesis
      proof (cases "generate_content env model_name (build_prompt v url website_content) kwargs")
        case (GenerateRaises e)
        with v None kwargs show thesis
          by (intro generate_raises [of v kwargs e]) (simp_all add: respond_content_def)
      next
        case (GenerateReturns candidates)
        show thesis
        proof (cases candidates)
          case Nil
          with v None kwargs GenerateReturns show thesis
            by (intro no_candidates [of v kwargs]) (simp_all add: respond_content_def)
        next
          case (Cons c rest)
          with v None kwargs GenerateReturns show thesis
            by (intro candidate [of v kwargs c rest]) (simp_all add: respond_content_def)
        qed
      qed
    qed
  qed
qed

lemma generate_text_cases:
  obtains
    (get_json_raises) e where
      "request = GetJsonRaises e"
      "generate_text env request =
         error_response e 500 []"
  | (not_object) data where
      "request = GetJsonReturns data"
      "\<forall>d. data \<noteq> JObj d"
      "generate_text env request =
         error_response (attribute_error (type_name data) ''get'') 500 []"
  | (url_missing) d where
      "request = GetJsonReturns (JObj d)"
      "\<not> truthy (dict_get d ''url'' JNull)"
      \<open>generate_text env request =
         error_response ''Missing "url" in request body'' 400 []\<close>
  | (url_not_str) d where
      "request = GetJsonReturns (JObj d)"
      "truthy (dict_get d ''url'' JNull)"
      "\<forall>u. dict_get d ''url'' JNull \<noteq> JStr u"
      "generate_text env request =
         error_response (attribute_error (type_name (dict_get d ''url'' JNull)) ''startswith'')
           500 []"
  | (scrape_raises) d u e where
      "request = GetJsonReturns (JObj d)"
      "dict_get d ''url'' JNull = JStr u" "u \<noteq> []"
      "scrape_website env (normalize_url u) = Inl e"
      "generate_text env request =
         error_response e 500 [Fetch (normalize_url u)]"
  | (scrape_none) d u where
      "request = GetJsonReturns (JObj d)"
      "dict_get d ''url'' JNull = JStr u" "u \<noteq> []"
      "scrape_website env (normalize_url u) = Inr None"
      "generate_text env request =
         error_response ''Failed to scrape website content'' 500 [Fetch (normalize_url u)]"
  | (scrape_empty) d u where
      "request = GetJsonReturns (JObj d)"
      "dict_get d ''url'' JNull = JStr u" "u \<noteq> []"
      "scrape_website env (normalize_url u) = Inr (Some [])"
      "generate_text env request =
         error_response ''Failed to scrape website content'' 500 [Fetch (normalize_url u)]"
  | (vulnerability_not_str) d u page where
      "request = GetJsonReturns (JObj d)"
      "dict_get d ''url'' JNull = JStr u" "u \<noteq> []"
      "scrape_website env (normalize_url u) = Inr (Some page)" "page \<noteq> []"
      "\<forall>v. dict_get d ''vulnerability'' (JStr ''Cross-Site Scripting (XSS)'') \<noteq> JStr v"
      "generate_text env request =
         error_response
           (concat_type_error
              (type_name (dict_get d ''vulnerability'' (JStr ''Cross-Site Scripting (XSS)''))))
           500 [Fetch (normalize_url u)]"
  | (model_raises) d u page v e where
      "request = GetJsonReturns (JObj d)"
      "dict_get d ''url'' JNull = JStr u" "u \<noteq> []"
      "scrape_website env (normalize_url u) = Inr (Some page)" "page \<noteq> []"
      "dict_get d ''vulnerability'' (JStr ''Cross-Site Scripting (XSS)'') = JStr v"
      "GenerativeModel env (dict_get d ''model'' (JStr ''gemini-1.5-flash'')) = Some e"
      "generate_text env request =
         error_response e 500 [Fetch (normalize_url u)]"
  | (parameters_not_object) d u page v where
      "request = GetJsonReturns (JObj d)"
      "dict_get d ''url'' JNull = JStr u" "u \<noteq> []"
      "scrape_website env (normalize_url u) = Inr (Some page)" "page \<noteq> []"
      "dict_get d ''vulnerability'' (JStr ''Cross-Site Scripting (XSS)'') = JStr v"
      "GenerativeModel env (dict_get d ''model'' (JStr ''gemini-1.5-flash'')) = None"
      "\<forall>kwargs. dict_get d ''parameters'' (JObj []) \<noteq> JObj kwargs"
      "generate_text env request =
         error_response ''Failed to generate content'' 500 [Fetch (normalize_url u)]"
  | (generate_raises) d u page v kwargs e where
      "request = GetJsonReturns (JObj d)"
      "dict_get d ''url'' JNull = JStr u" "u \<noteq> []"
      "scrape_website env (normalize_url u) = Inr (Some page)" "page \<noteq> []"
      "dict_get d ''vulnerability'' (JStr ''Cross-Site Scripting (XSS)'') = JStr v"
      "GenerativeModel env (dict_get d ''model'' (JStr ''gemini-1.5-flash'')) = None"
      "dict_get d ''parameters'' (JObj []) = JObj kwargs"
      "generate_content env (dict_get d ''model'' (JStr ''gemini-1.5-flash''))
         (build_prompt v (normalize_url u) page) kwargs
         = GenerateRaises e"
      "generate_text env request =
         error_response ''Failed to generate content'' 500
           [Fetch (normalize_url u),
            Generate (dict_get d ''model'' (JStr ''gemini-1.5-flash''))
            (build_prompt v (normalize_url u) page) kwargs]"
  | (no_candidates) d u page v kwargs where
      "request = GetJsonReturns (JObj d)"
      "dict_get d ''url'' JNull = JStr u" "u \<noteq> []"
      "scrape_website env (normalize_url u) = Inr (Some page)" "page \<noteq> []"
      "dict_get d ''vulnerability'' (JStr ''Cross-Site Scripting (XSS)'') = JStr v"
      "GenerativeModel env (dict_get d ''model'' (JStr ''gemini-1.5-flash'')) = None"
      "dict_get d ''parameters'' (JObj []) = JObj kwargs"
      "generate_content env (dict_get d ''model'' (JStr ''gemini-1.5-flash''))
         (build_prompt v (normalize_url u) page) kwargs
         = GenerateReturns []"
      "generate_text env request =
         error_response ''No candidates returned from the model'' 500
           [Fetch (normalize_url u),
            Generate (dict_get d ''model'' (JStr ''gemini-1.5-flash''))
            (build_prompt v (normalize_url u) page) kwargs]"
  | (blocked) d u page v kwargs candidate rest where
      "request = GetJsonReturns (JObj d)"
      "dict_get d ''url'' JNull = JStr u" "u \<noteq> []"
      "scrape_website env (normalize_url u) = Inr (Some page)" "page \<noteq> []"
      "dict_get d ''vulnerability'' (JStr ''Cross-Site Scripting (XSS)'') = JStr v"
      "GenerativeModel env (dict_get d ''model'' (JStr ''gemini-1.5-flash'')) = None"
      "dict_get d ''parameters'' (JObj []) = JObj kwargs"
      "generate_content env (dict_get d ''model'' (JStr ''gemini-1.5-flash''))
         (build_prompt v (normalize_url u) page) kwargs
         = GenerateReturns (candidate # rest)"
      "list_ex rating_blocked (candidate_safety_ratings candidate)"
      "generate_text env request =
         error_response ''Response was blocked due to safety ratings'' 500
           [Fetch (normalize_url u),
            Generate (dict_get d ''model'' (JStr ''gemini-1.5-flash''))
            (build_prompt v (normalize_url u) page) kwargs]"
  | (unreadable) d u page v kwargs candidate rest e where
      "request = GetJsonReturns (JObj d)"
      "dict_get d ''url'' JNull = JStr u" "u \<noteq> []"
      "scrape_website env (normalize_url u) = Inr (Some page)" "page \<noteq> []"
      "dict_get d ''vulnerability'' (JStr ''Cross-Site Scripting (XSS)'') = JStr v"
      "GenerativeModel env (dict_get d ''model'' (JStr ''gemini-1.5-flash'')) = None"
      "dict_get d ''parameters'' (JObj []) = JObj kwargs"
      "generate_content env (dict_get d ''model'' (JStr ''gemini-1.5-flash''))
         (build_prompt v (normalize_url u) page) kwargs
         = GenerateReturns (candidate # rest)"
      "\<not> list_ex rating_blocked (candidate_safety_ratings candidate)"
      "extract_generated_code candidate = Inl e"
      "generate_text env request =
         error_response e 500
           [Fetch (normalize_url u),
            Generate (dict_get d ''model'' (JStr ''gemini-1.5-flash''))
            (build_prompt v (normalize_url u) page) kwargs]"
  | (empty) d u page v kwargs candidate rest g where
      "request = GetJsonReturns (JObj d)"
      "dict_get d ''url'' JNull = JStr u" "u \<noteq> []"
      "scrape_website env (normalize_url u) = Inr (Some page)" "page \<noteq> []"
      "dict_get d ''vulnerability'' (JStr ''Cross-Site Scripting (XSS)'') = JStr v"
      "GenerativeModel env (dict_get d ''model'' (JStr ''gemini-1.5-flash'')) = None"
      "dict_get d ''parameters'' (JObj []) = JObj kwargs"
      "generate_content env (dict_get d ''model'' (JStr ''gemini-1.5-flash''))
         (build_prompt v (normalize_url u) page) kwargs
         = GenerateReturns (candidate # rest)"
      "\<not> list_ex rating_blocked (candidate_safety_ratings candidate)"
      "extract_generated_code candidate = Inr g" "strip g = []"
      "generate_text env request =
         error_response ''Generated code is empty'' 500
           [Fetch (normalize_url u),
            Generate (dict_get d ''model'' (JStr ''gemini-1.5-flash''))
            (build_prompt v (normalize_url u) page) kwargs]"
  | (second_model_raises) d u page v kwargs candidate rest g e where
      "request = GetJsonReturns (JObj d)"
      "dict_get d ''url'' JNull = JStr u" "u \<noteq> []"
      "scrape_website env (normalize_url u) = Inr (Some page)" "page \<noteq> []"
      "dict_get d ''vulnerability'' (JStr ''Cross-Site Scripting (XSS)'') = JStr v"
      "GenerativeModel env (dict_get d ''model'' (JStr ''gemini-1.5-flash'')) = None"
      "dict_get d ''parameters'' (JObj []) = JObj kwargs"
      "generate_content env (dict_get d ''model'' (JStr ''gemini-1.5-flash''))
         (build_prompt v (normalize_url u) page) kwargs
         = GenerateReturns (candidate # rest)"
      "\<not> list_ex rating_blocked (candidate_safety_ratings candidate)"
      "extract_generated_code candidate = Inr g" "strip g \<noteq> []"
      "GenerativeModel env (JStr ''gemini-1.5-flash'') = Some e"
      "generate_text env request =
         error_response e 500
           [Fetch (normalize_url u),
            Generate (dict_get d ''model'' (JStr ''gemini-1.5-flash''))
            (build_prompt v (normalize_url u) page) kwargs]"
  | (answered) d u page v kwargs candidate rest g level analysis where
      "request = GetJsonReturns (JObj d)"
      "dict_get d ''url'' JNull = JStr u" "u \<noteq> []"
      "scrape_website env (normalize_url u) = Inr (Some page)" "page \<noteq> []"
      "dict_get d ''vulnerability'' (JStr ''Cross-Site Scripting (XSS)'') = JStr v"
      "GenerativeModel env (dict_get d ''model'' (JStr ''gemini-1.5-flash'')) = None"
      "dict_get d ''parameters'' (JObj []) = JObj kwargs"
      "generate_content env (dict_get d ''model'' (JStr ''gemini-1.5-flash''))
         (build_prompt v (normalize_url u) page) kwargs
         = GenerateReturns (candidate # rest)"
      "\<not> list_ex rating_blocked (candidate_safety_ratings candidate)"
      "extract_generated_code candidate = Inr g" "strip g \<noteq> []"
      "GenerativeModel env (JStr ''gemini-1.5-flash'') = None"
      "analyze_threat_level env g = (Inr (level, analysis), [Assess (analysis_prompt g)])"
      "generate_text env request =
         \<lparr>status = 200,
          body = [(''text'', g),
                  (''analysis'', or_else analysis ''No content to analyze''),
                  (''threat_level'', or_else level ''N/A'')],
          calls = [Fetch (normalize_url u),
            Generate (dict_get d ''model'' (JStr ''gemini-1.5-flash''))
            (build_prompt v (normalize_url u) page) kwargs,
            Assess (analysis_prompt g)]\<rparr>"
proof (cases request)
  case (GetJsonRaises e)
  then show thesis
    by (intro get_json_raises [of e]) (simp_all add: generate_text_def Let_def)
next
  case (GetJsonReturns data)
  show thesis
  proof (cases "\<exists>d. data = JObj d")
    case False
    then have
      "generate_text env request = error_response (attribute_error (type_name data) ''get'') 500 []"
      using GetJsonReturns by (cases data) (simp_all add: generate_text_def Let_def)
    with GetJsonReturns False show thesis
      by (intro not_object [of data]) simp_all
  next
    case True
    then obtain d where d: "request = GetJsonReturns (JObj d)"
      using GetJsonReturns by blast
    show thesis
    proof (cases "truthy (dict_get d ''url'' JNull)")
      case False
      with d show thesis
        by (intro url_missing [of d]) (simp_all add: generate_text_def Let_def)
    next
      case truthy: True
      show thesis
      proof (cases "\<exists>u. dict_get d ''url'' JNull = JStr u")
        case False
        then have
          "generate_text env request =
             error_response (attribute_error (type_name (dict_get d ''url'' JNull)) ''startswith'')
               500 []"
          using d truthy by (cases "dict_get d ''url'' JNull") (simp_all add: generate_text_def Let_def)
        with d truthy False show thesis
          by (intro url_not_str [of d]) simp_all
      next
        case True
        then obtain u where u: "dict_get d ''url'' JNull = JStr u" ..
        with truthy have u_ne: "u \<noteq> []"
          by simp
        note pre = d u u_ne
        show thesis
        proof (cases "scrape_website env (normalize_url u)")
          case (Inl e)
          with pre show thesis
            by (intro scrape_raises [of d u e]) (simp_all add: generate_text_def Let_def)
        next
          case (Inr scraped)
          show thesis
          proof (cases scraped)
            case None
            with pre Inr show thesis
              by (intro scrape_none [of d u]) (simp_all add: generate_text_def Let_def)
          next
            case (Some page)
            show thesis
            proof (cases "page = []")
              case True
              with pre Inr Some show thesis
                by (intro scrape_empty [of d u]) (simp_all add: generate_text_def Let_def)
            next
              case False
              with pre Inr Some have run:
                "generate_text env request =
                   respond_content env (normalize_url u)
                     (dict_get d ''vulnerability'' (JStr ''Cross-Site Scripting (XSS)''))
                     (dict_get d ''model'' (JStr ''gemini-1.5-flash''))
                     (dict_get d ''parameters'' (JObj [])) page [Fetch (normalize_url u)]"
                by (simp add: generate_text_def Let_def)
              from Inr Some have scr: "scrape_website env (normalize_url u) = Inr (Some page)"
                by simp
              note pre = pre scr False
              show thesis
              proof (cases rule: respond_content_cases
                  [of "dict_get d ''vulnerability'' (JStr ''Cross-Site Scripting (XSS)'')"
                      env "normalize_url u" "dict_get d ''model'' (JStr ''gemini-1.5-flash'')"
                      "dict_get d ''parameters'' (JObj [])" page "[Fetch (normalize_url u)]"])
                case vulnerability_not_str
                with pre run show thesis
                  by (intro that(8) [of d u page]) simp_all
              next
                case (model_raises v e)
                with pre run show thesis
                  by (intro that(9) [of d u page v e]) simp_all
              next
                case (parameters_not_object v)
                with pre run show thesis
                  by (intro that(10) [of d u page v]) simp_all
              next
                case (generate_raises v kwargs e)
                with pre run show thesis
                  by (intro that(11) [of d u page v kwargs e]) simp_all
              next
                case (no_candidates v kwargs)
                with pre run show thesis
                  by (intro that(12) [of d u page v kwargs]) simp_all
              next
                case (candidate v kwargs c rest)
                note pre = pre candidate(1-4)
                from run candidate(5) have run:
                  "generate_text env request =
                     respond_candidate env c
                       [Fetch (normalize_url u),
                        Generate (dict_get d ''model'' (JStr ''gemini-1.5-flash''))
                          (build_prompt v (normalize_url u) page) kwargs]"
                  by simp
                show thesis
                proof (cases rule: respond_candidate_cases
                    [of c env "[Fetch (normalize_url u),
                        Generate (dict_get d ''model'' (JStr ''gemini-1.5-flash''))
                          (build_prompt v (normalize_url u) page) kwargs]"])
                  case blocked
                  with pre run show thesis
                    by (intro that(13) [of d u page v kwargs c rest]) simp_all
                next
                  case (unreadable e)
                  with pre run show thesis
                    by (intro that(14) [of d u page v kwargs c rest e]) simp_all
                next
                  case (empty g)
                  with pre run show thesis
                    by (intro that(15) [of d u page v kwargs c rest g]) simp_all
                next
                  case (second_model_raises g e)
                  with pre run show thesis
                    by (intro that(16) [of d u page v kwargs c rest g e]) simp_all
                next
                  case (answered g level analysis)
                  with pre run show thesis
                    by (intro that(17) [of d u page v kwargs c rest g level analysis]) simp_all
                qed
              qed
            qed
          qed
        qed
      qed
    qed
  qed
qed


section \<open>The end-to-end scenario\<close>

text \<open>
  The request \<open>{"url": "example.com"}\<close> with the page, the findings and the assessment
  all mocked: the three calls are made in order and the answer is the documented one.
\<close>

lemma end_to_end_scenario:
  "generate_text
     (mock_env example_page (GenerateReturns [text_candidate example_findings])
        (GenerateReturns [text_candidate example_findings]))
     example_request =
     \<lparr>status = 200,
      body = [(''text'', ''Found an XSS vector. This is medium risk.''),
              (''analysis'', ''Found an XSS vector. This is medium risk.''),
              (''threat_level'', ''Medium'')],
      calls = [Fetch ''http://example.com'',
               Generate (JStr ''gemini-1.5-flash'') example_prompt [],
               Assess (analysis_prompt example_findings)]\<rparr>"
  by code_simp


section \<open>The claims\<close>

subsection \<open>C1: the threat level derived from the assessment text\<close>

text \<open>
  C1, as amended. When the second generation call returns a top candidate whose content
  has a \<open>text\<close> that is not made of whitespace only, \<open>analyze_threat_level\<close> returns
  that text with the level ``High'' if the text contains ``high risk'' case-insensitively,
  otherwise ``Low'' if it contains ``low risk'' case-insensitively, otherwise ``Medium''.
\<close>

theorem threat_level_from_assessment_text:
  assumes "content \<noteq> []"
    and "GenerativeModel env (JStr ''gemini-1.5-flash'') = None"
    and "generate_content env (JStr ''gemini-1.5-flash'') (analysis_prompt content) []
           = GenerateReturns (candidate # rest)"
    and "candidate_content candidate = Has c"
    and "content_text c = Has t"
    and "\<not> list_all isspace t"
  shows "analyze_threat_level env content =
           (Inr (if contains_ignoring_case ''high risk'' t then ''High''
                 else if contains_ignoring_case ''low risk'' t then ''Low''
                 else ''Medium'', t),
            [Assess (analysis_prompt content)])"
proof -
  from assms(6) have "strip t \<noteq> []"
    by (simp add: strip_empty_iff)
  with assms(1-5) have
    "analyze_threat_level env content =
       (Inr (threat_level_of t, t), [Assess (analysis_prompt content)])"
    by (simp add: analyze_threat_level_def)
  then show ?thesis
    by (simp only: threat_level_of_iff)
qed

text \<open>The theorem at an assessment that says ``HIGH RISK'' in capitals.\<close>

theorem threat_level_from_assessment_text_witness:
  "analyze_threat_level
     (mock_env example_page (GenerateReturns [])
        (GenerateReturns [text_candidate ''This is a HIGH RISK finding.'']))
     example_findings =
     (Inr (''High'', ''This is a HIGH RISK finding.''), [Assess (analysis_prompt example_findings)])"
proof -
  let ?env = "mock_env example_page (GenerateReturns [])
        (GenerateReturns [text_candidate ''This is a HIGH RISK finding.''])"
  let ?c = "\<lparr>content_parts = Missing (attribute_error ''Content'' ''parts''),
             content_text = Has ''This is a HIGH RISK finding.''\<rparr>"
  have 1: "example_findings \<noteq> []"
    by code_simp
  have 2: "GenerativeModel ?env (JStr ''gemini-1.5-flash'') = None"
    by code_simp
  have 3: "generate_content ?env (JStr ''gemini-1.5-flash'') (analysis_prompt example_findings) []
           = GenerateReturns (text_candidate ''This is a HIGH RISK finding.'' # [])"
    by code_simp
  have 4: "candidate_content (text_candidate ''This is a HIGH RISK finding.'') = Has ?c"
    by code_simp
  have 5: "content_text ?c = Has ''This is a HIGH RISK finding.''"
    by code_simp
  have 6: "\<not> list_all isspace ''This is a HIGH RISK finding.''"
    by code_simp
  have "contains (lower ''high risk'') (lower ''This is a HIGH RISK finding.'')"
    by code_simp
  then have 7: "contains_ignoring_case ''high risk'' ''This is a HIGH RISK finding.''"
    by (simp only: contains_lower)
  from threat_level_from_assessment_text [OF 1 2 3 4 5 6] 7 show ?thesis
    by simp
qed

text \<open>
  C1 as stated asks for non-empty text only. A text of one space is not empty and
  contains neither phrase, yet the level returned for it is not ``Medium'': line 65
  tests \<open>analysis_text.strip()\<close> and returns the ``unable'' pair.
\<close>

theorem threat_level_whitespace_counterexample:
  "generate_content
     (mock_env example_page (GenerateReturns []) (GenerateReturns [text_candidate '' '']))
     (JStr ''gemini-1.5-flash'') (analysis_prompt example_findings) []
     = GenerateReturns [text_candidate '' '']
   \<and> candidate_content (text_candidate '' '') =
       Has \<lparr>content_parts = Missing (attribute_error ''Content'' ''parts''),
            content_text = Has '' ''\<rparr>
   \<and> '' '' \<noteq> []
   \<and> \<not> contains ''high risk'' (lower '' '')
   \<and> \<not> contains ''low risk'' (lower '' '')
   \<and> fst (analyze_threat_level
          (mock_env example_page (GenerateReturns []) (GenerateReturns [text_candidate '' '']))
          example_findings)
       = Inr (''Unable to determine threat level'', ''No detailed analysis available'')
   \<and> fst (analyze_threat_level
          (mock_env example_page (GenerateReturns []) (GenerateReturns [text_candidate '' '']))
          example_findings)
       \<noteq> Inr (''Medium'', '' '')"
  by code_simp


subsection \<open>C2: the assessment call raises\<close>

text \<open>
  C2, as amended. When the assessment call of a request raises, the request still
  answers 200 and \<open>text\<close> carries the findings of the first call; \<open>threat_level\<close> is
  ``Error'' and \<open>analysis\<close> is the text of the exception, or ``No content to analyze''
  when that text is empty.
\<close>

theorem assessment_exception_labelled_error:
  assumes "Assess q \<in> set (calls (generate_text env request))"
    and "generate_content env (JStr ''gemini-1.5-flash'') q [] = GenerateRaises e"
  shows "status (generate_text env request) = 200
         \<and> (\<exists>m p kwargs candidate rest g.
               Generate m p kwargs \<in> set (calls (generate_text env request))
               \<and> generate_content env m p kwargs = GenerateReturns (candidate # rest)
               \<and> extract_generated_code candidate = Inr g
               \<and> q = analysis_prompt g
               \<and> map_of (body (generate_text env request)) ''text'' = Some g)
         \<and> map_of (body (generate_text env request)) ''threat_level'' = Some ''Error''
         \<and> map_of (body (generate_text env request)) ''analysis''
             = Some (if e = [] then ''No content to analyze'' else e)"
proof (cases rule: generate_text_cases [of request env])
  case (answered d u page v kwargs candidate rest g level analysis)
  from assms(1) answered(15) have q: "q = analysis_prompt g"
    by simp
  from answered(12) have "g \<noteq> []"
    by (rule strip_nonempty)
  with assms(2) q answered(13) have
    "analyze_threat_level env g = (Inr (''Error'', e), [Assess (analysis_prompt g)])"
    by (simp add: analyze_threat_level_def)
  with answered(14) have result: "level = ''Error''" "analysis = e"
    by simp_all
  have "Generate (dict_get d ''model'' (JStr ''gemini-1.5-flash''))
          (build_prompt v (normalize_url u) page) kwargs
        \<in> set (calls (generate_text env request))"
    by (simp add: answered(15))
  with answered(9,11) q have
    "\<exists>m p kwargs candidate rest g.
       Generate m p kwargs \<in> set (calls (generate_text env request))
       \<and> generate_content env m p kwargs = GenerateReturns (candidate # rest)
       \<and> extract_generated_code candidate = Inr g
       \<and> q = analysis_prompt g
       \<and> map_of (body (generate_text env request)) ''text'' = Some g"
    by (intro exI [of _ "dict_get d ''model'' (JStr ''gemini-1.5-flash'')"]
        exI [of _ "build_prompt v (normalize_url u) page"] exI [of _ kwargs]
        exI [of _ candidate] exI [of _ rest] exI [of _ g])
      (simp add: answered(15))
  then show ?thesis
    by (simp add: answered(15) result or_else_def)
qed (use assms(1) in \<open>auto simp: error_response_def\<close>)

text \<open>The theorem at an assessment call that raises an exception with no text.\<close>

theorem assessment_exception_labelled_error_witness:
  "Assess (analysis_prompt example_findings)
     \<in> set (calls (generate_text
          (mock_env example_page (GenerateReturns [text_candidate example_findings])
             (GenerateRaises []))
          example_request))
   \<and> status (generate_text
          (mock_env example_page (GenerateReturns [text_candidate example_findings])
             (GenerateRaises []))
          example_request) = 200
   \<and> map_of (body (generate_text
          (mock_env example_page (GenerateReturns [text_candidate example_findings])
             (GenerateRaises []))
          example_request)) ''threat_level'' = Some ''Error''
   \<and> map_of (body (generate_text
          (mock_env example_page (GenerateReturns [text_candidate example_findings])
             (GenerateRaises []))
          example_request)) ''analysis'' = Some ''No content to analyze''"
proof -
  let ?env = "mock_env example_page (GenerateReturns [text_candidate example_findings])
             (GenerateRaises [])"
  have 1: "Assess (analysis_prompt example_findings)
             \<in> set (calls (generate_text ?env example_request))"
    by code_simp
  have 2: "generate_content ?env (JStr ''gemini-1.5-flash'') (analysis_prompt example_findings) []
             = GenerateRaises []"
    by code_simp
  from assessment_exception_labelled_error [OF 1 2] 1 show ?thesis
    by simp
qed

text \<open>
  C2 as stated promises the pair ``Unable to determine threat level'' and ``No detailed
  analysis available''. Lines 75 to 77 return \<open>"Error", str(e)\<close> instead: with the
  assessment mocked to raise ``quota exceeded'' the response carries those two values.
\<close>

theorem assessment_exception_counterexample:
  "generate_content
     (mock_env example_page (GenerateReturns [text_candidate example_findings])
        (GenerateRaises ''quota exceeded''))
     (JStr ''gemini-1.5-flash'') (analysis_prompt example_findings) []
     = GenerateRaises ''quota exceeded''
   \<and> generate_text
       (mock_env example_page (GenerateReturns [text_candidate example_findings])
          (GenerateRaises ''quota exceeded''))
       example_request
     = \<lparr>status = 200,
        body = [(''text'', example_findings),
                (''analysis'', ''quota exceeded''),
                (''threat_level'', ''Error'')],
        calls = [Fetch ''http://example.com'',
                 Generate (JStr ''gemini-1.5-flash'') example_prompt [],
                 Assess (analysis_prompt example_findings)]\<rparr>
   \<and> ''Error'' \<noteq> ''Unable to determine threat level''
   \<and> ''quota exceeded'' \<noteq> ''No detailed analysis available''"
  by code_simp


subsection \<open>C3: a request without a url\<close>

text \<open>
  C3, as amended. When the body is a JSON object that has no \<open>url\<close> member, or whose
  \<open>url\<close> is falsy, the endpoint answers 400 with an \<open>error\<close> member and makes no
  call.
\<close>

theorem missing_url_status_400:
  assumes "map_of d ''url'' = None \<or> (\<exists>v. map_of d ''url'' = Some v \<and> \<not> truthy v)"
  shows \<open>generate_text env (GetJsonReturns (JObj d)) =
           \<lparr>status = 400, body = [(''error'', ''Missing "url" in request body'')], calls = []\<rparr>\<close>
proof -
  from assms have "\<not> truthy (dict_get d ''url'' JNull)"
    by (auto simp: dict_get_def)
  then show ?thesis
    by (simp add: generate_text_def Let_def error_response_def)
qed

text \<open>The theorem at an object without \<open>url\<close> and at one whose \<open>url\<close> is the empty string.\<close>

theorem missing_url_status_400_witness:
  \<open>map_of [(''vulnerability'', JStr ''SQL injection'')] ''url'' = None
   \<and> generate_text (mock_env example_page (GenerateReturns []) (GenerateReturns []))
       (GetJsonReturns (JObj [(''vulnerability'', JStr ''SQL injection'')])) =
       \<lparr>status = 400, body = [(''error'', ''Missing "url" in request body'')], calls = []\<rparr>
   \<and> map_of [(''url'', JStr [])] ''url'' = Some (JStr [])
   \<and> \<not> truthy (JStr [])
   \<and> generate_text (mock_env example_page (GenerateReturns []) (GenerateReturns []))
       (GetJsonReturns (JObj [(''url'', JStr [])])) =
       \<lparr>status = 400, body = [(''error'', ''Missing "url" in request body'')], calls = []\<rparr>\<close>
proof -
  have 1: "map_of [(''vulnerability'', JStr ''SQL injection'')] ''url'' = None"
    by simp
  have 2: "map_of [(''url'', JStr [])] ''url'' = Some (JStr [])" "\<not> truthy (JStr [])"
    by simp_all
  from 1 have 3: "map_of [(''vulnerability'', JStr ''SQL injection'')] ''url'' = None
      \<or> (\<exists>v. map_of [(''vulnerability'', JStr ''SQL injection'')] ''url'' = Some v
            \<and> \<not> truthy v)"
    by (rule disjI1)
  from 2 have 4: "map_of [(''url'', JStr [])] ''url'' = None
      \<or> (\<exists>v. map_of [(''url'', JStr [])] ''url'' = Some v \<and> \<not> truthy v)"
    by blast
  from missing_url_status_400 [OF 3] missing_url_status_400 [OF 4] 1 2 show ?thesis
    by simp
qed

text \<open>
  C3 as stated speaks of every valid JSON body. The body \<open>[]\<close> is valid JSON and has
  no \<open>url\<close>, but \<open>data.get\<close> raises on a list and the outer handler answers 500.
\<close>

theorem non_object_body_counterexample:
  "generate_text (mock_env example_page (GenerateReturns []) (GenerateReturns []))
     (GetJsonReturns (JArr [])) =
     \<lparr>status = 500, body = [(''error'', attribute_error ''list'' ''get'')], calls = []\<rparr>
   \<and> status (generate_text (mock_env example_page (GenerateReturns []) (GenerateReturns []))
        (GetJsonReturns (JArr []))) \<noteq> 400"
  by code_simp


subsection \<open>C4: the page fetch fails\<close>

text \<open>
  C4. When the page fetcher is called and returns \<open>None\<close>, the endpoint answers 500
  with an \<open>error\<close> member, and the fetch is the only call of the request: neither
  generation call is attempted.
\<close>

theorem scrape_failure_status_500:
  assumes "Fetch url \<in> set (calls (generate_text env request))"
    and "scrape_website env url = Inr None"
  shows "status (generate_text env request) = 500
         \<and> body (generate_text env request) = [(''error'', ''Failed to scrape website content'')]
         \<and> calls (generate_text env request) = [Fetch url]"
  using assms
  by (cases rule: generate_text_cases [of request env]) (auto simp: error_response_def)

text \<open>The theorem at a fetch that times out.\<close>

theorem scrape_failure_status_500_witness:
  "scrape_website
     (mock_env (RequestException ''connection timed out'') (GenerateReturns []) (GenerateReturns []))
     ''http://example.com'' = Inr None
   \<and> generate_text
       (mock_env (RequestException ''connection timed out'') (GenerateReturns [])
          (GenerateReturns []))
       example_request =
       \<lparr>status = 500, body = [(''error'', ''Failed to scrape website content'')],
        calls = [Fetch ''http://example.com'']\<rparr>"
proof -
  let ?env = "mock_env (RequestException ''connection timed out'') (GenerateReturns [])
          (GenerateReturns [])"
  have 1: "Fetch ''http://example.com'' \<in> set (calls (generate_text ?env example_request))"
    by code_simp
  have 2: "scrape_website ?env ''http://example.com'' = Inr None"
    by code_simp
  from scrape_failure_status_500 [OF 1 2] 2 show ?thesis
    by (cases "generate_text ?env example_request") simp
qed


subsection \<open>C5: a blocked candidate\<close>

text \<open>
  C5. When the top candidate of the first generation call carries a safety rating
  flagged as blocked, the endpoint answers 500, and its error message differs from
  the one of any request whose first generation call returned no candidates.
\<close>

theorem blocked_candidate_status_500:
  assumes "Generate m p kwargs \<in> set (calls (generate_text env request))"
    and "generate_content env m p kwargs = GenerateReturns (candidate # rest)"
    and "rating \<in> set (candidate_safety_ratings candidate)"
    and "rating_blocked rating"
    and "Generate m' p' kwargs' \<in> set (calls (generate_text env' request'))"
    and "generate_content env' m' p' kwargs' = GenerateReturns []"
  shows "status (generate_text env request) = 500
         \<and> body (generate_text env request)
             = [(''error'', ''Response was blocked due to safety ratings'')]
         \<and> body (generate_text env' request')
             = [(''error'', ''No candidates returned from the model'')]
         \<and> body (generate_text env request) \<noteq> body (generate_text env' request')"
proof -
  from assms(3,4) have blocked: "list_ex rating_blocked (candidate_safety_ratings candidate)"
    by (auto simp: list_ex_iff)
  have 1: "generate_text env request =
      error_response ''Response was blocked due to safety ratings'' 500
        (calls (generate_text env request))"
    using assms(1,2) blocked
    by (cases rule: generate_text_cases [of request env]) (auto simp: error_response_def)
  have 2: "generate_text env' request' =
      error_response ''No candidates returned from the model'' 500
        (calls (generate_text env' request'))"
    using assms(5,6)
    by (cases rule: generate_text_cases [of request' env']) (auto simp: error_response_def)
  have 3: "status (generate_text env request) = 500"
    by (subst 1) (simp add: error_response_def)
  have 4: "body (generate_text env request)
             = [(''error'', ''Response was blocked due to safety ratings'')]"
    by (subst 1) (simp add: error_response_def)
  have 5: "body (generate_text env' request')
             = [(''error'', ''No candidates returned from the model'')]"
    by (subst 2) (simp add: error_response_def)
  from 3 4 5 show ?thesis
    by simp
qed

text \<open>The theorem at a blocked candidate, against a response without candidates.\<close>

theorem blocked_candidate_status_500_witness:
  "rating_blocked \<lparr>rating_category = ''HARM_CATEGORY_DANGEROUS_CONTENT'', rating_blocked = True\<rparr>
   \<and> status (generate_text
        (mock_env example_page (GenerateReturns [parts_candidate True [''payload'']])
           (GenerateReturns []))
        example_request) = 500
   \<and> body (generate_text
        (mock_env example_page (GenerateReturns [parts_candidate True [''payload'']])
           (GenerateReturns []))
        example_request) = [(''error'', ''Response was blocked due to safety ratings'')]
   \<and> body (generate_text (mock_env example_page (GenerateReturns []) (GenerateReturns []))
        example_request) = [(''error'', ''No candidates returned from the model'')]
   \<and> body (generate_text
        (mock_env example_page (GenerateReturns [parts_candidate True [''payload'']])
           (GenerateReturns []))
        example_request)
     \<noteq> body (generate_text (mock_env example_page (GenerateReturns []) (GenerateReturns []))
        example_request)"
proof -
  let ?blocked = "mock_env example_page (GenerateReturns [parts_candidate True [''payload'']])
           (GenerateReturns [])"
  let ?none = "mock_env example_page (GenerateReturns []) (GenerateReturns [])"
  let ?rating = "\<lparr>rating_category = ''HARM_CATEGORY_DANGEROUS_CONTENT'', rating_blocked = True\<rparr>"
  have 1: "Generate (JStr ''gemini-1.5-flash'') example_prompt []
             \<in> set (calls (generate_text ?blocked example_request))"
    by code_simp
  have 2: "generate_content ?blocked (JStr ''gemini-1.5-flash'') example_prompt []
             = GenerateReturns (parts_candidate True [''payload''] # [])"
    by code_simp
  have 3: "?rating \<in> set (candidate_safety_ratings (parts_candidate True [''payload'']))"
    by (simp add: parts_candidate_def)
  have 4: "rating_blocked ?rating"
    by simp
  have 5: "Generate (JStr ''gemini-1.5-flash'') example_prompt []
             \<in> set (calls (generate_text ?none example_request))"
    by code_simp
  have 6: "generate_content ?none (JStr ''gemini-1.5-flash'') example_prompt []
             = GenerateReturns []"
    by code_simp
  from blocked_candidate_status_500 [OF 1 2 3 4 5 6] 4 show ?thesis
    by simp
qed


subsection \<open>C6: the url is normalized once\<close>

text \<open>
  C6. For every string \<open>u\<close> given as \<open>url\<close>, the URL used downstream is \<open>u\<close> itself
  when \<open>u\<close> starts with ``http://'' or ``https://'', and ``http://'' followed by \<open>u\<close>
  otherwise: the fetch (made whenever \<open>u\<close> is not empty) is for that URL, no other URL
  is fetched, and that URL is the one every findings prompt embeds.
\<close>

theorem url_normalized_once:
  fixes u :: string
  defines "used \<equiv> (if prefix ''http://'' u \<or> prefix ''https://'' u then u else ''http://'' @ u)"
  assumes "map_of d ''url'' = Some (JStr u)"
  shows "(u \<noteq> [] \<longrightarrow>
            (\<exists>later. calls (generate_text env (GetJsonReturns (JObj d))) = Fetch used # later))
         \<and> (\<forall>x. Fetch x \<in> set (calls (generate_text env (GetJsonReturns (JObj d))))
                \<longrightarrow> x = used)
         \<and> (\<forall>m p kwargs.
               Generate m p kwargs \<in> set (calls (generate_text env (GetJsonReturns (JObj d))))
               \<longrightarrow> (\<exists>v page.
                     p = ''You are an expert red-team specialist. ''
                         @ ''Attempt to find the following vulnerability: '' @ v @ ''. ''
                         @ ''Target URL: '' @ used @ ''. ''
                         @ ''Analyze the following website content for vulnerabilities:\<newline>''
                         @ take 5000 page))"
proof -
  from assms(2) have url: "dict_get d ''url'' JNull = JStr u"
    by (simp add: dict_get_def)
  have used: "normalize_url u = used"
    by (auto simp: normalize_url_def startswith_def used_def)
  have prompt: "build_prompt v used page =
      ''You are an expert red-team specialist. ''
      @ ''Attempt to find the following vulnerability: '' @ v @ ''. ''
      @ ''Target URL: '' @ used @ ''. ''
      @ ''Analyze the following website content for vulnerabilities:\<newline>''
      @ take 5000 page" for v page
    by (simp add: build_prompt_def or_else_def)
  show ?thesis
    using url
    by (cases rule: generate_text_cases [of "GetJsonReturns (JObj d)" env])
      (auto simp: error_response_def used prompt simp del: append.simps append_assoc)
qed

text \<open>The theorem at \<open>example.com\<close> and at \<open>https://example.com\<close>.\<close>

theorem url_normalized_once_witness:
  "map_of [(''url'', JStr ''example.com'')] ''url'' = Some (JStr ''example.com'')
   \<and> (\<exists>later.
         calls (generate_text
           (mock_env example_page (GenerateReturns [text_candidate example_findings])
              (GenerateReturns [text_candidate example_findings]))
           (GetJsonReturns (JObj [(''url'', JStr ''example.com'')])))
         = Fetch ''http://example.com'' # later)
   \<and> map_of [(''url'', JStr ''https://example.com'')] ''url'' = Some (JStr ''https://example.com'')
   \<and> (\<exists>later.
         calls (generate_text
           (mock_env example_page (GenerateReturns [text_candidate example_findings])
              (GenerateReturns [text_candidate example_findings]))
           (GetJsonReturns (JObj [(''url'', JStr ''https://example.com'')])))
         = Fetch ''https://example.com'' # later)"
proof -
  let ?env = "mock_env example_page (GenerateReturns [text_candidate example_findings])
              (GenerateReturns [text_candidate example_findings])"
  have 1: "map_of [(''url'', JStr ''example.com'')] ''url'' = Some (JStr ''example.com'')"
    by simp
  have 2: "''example.com'' \<noteq> []"
    by simp
  have 3: "map_of [(''url'', JStr ''https://example.com'')] ''url''
             = Some (JStr ''https://example.com'')"
    by simp
  have 4: "''https://example.com'' \<noteq> []"
    by simp
  from url_normalized_once [OF 1, of ?env] url_normalized_once [OF 3, of ?env] 1 2 3 4
  show ?thesis
    by simp
qed


subsection \<open>C7: a body that is not valid JSON\<close>

text \<open>
  C7, as amended. When \<open>request.get_json()\<close> raises, as it does on a body that is not
  valid JSON, the endpoint answers 500 with the text of the exception as \<open>error\<close>,
  and makes no call.
\<close>

theorem invalid_json_status_500:
  "generate_text env (GetJsonRaises e) = \<lparr>status = 500, body = [(''error'', e)], calls = []\<rparr>"
  by (simp add: generate_text_def error_response_def)

text \<open>
  C7 as stated promises a 4xx status. The exception is raised inside the \<open>try\<close> of
  line 104 and caught by the handler of line 192, which answers 500.
\<close>

theorem invalid_json_counterexample:
  "status (generate_text (mock_env example_page (GenerateReturns []) (GenerateReturns []))
     (GetJsonRaises ''400 Bad Request: Failed to decode JSON object'')) = 500
   \<and> \<not> (400 \<le> status (generate_text
              (mock_env example_page (GenerateReturns []) (GenerateReturns []))
              (GetJsonRaises ''400 Bad Request: Failed to decode JSON object''))
        \<and> status (generate_text
              (mock_env example_page (GenerateReturns []) (GenerateReturns []))
              (GetJsonRaises ''400 Bad Request: Failed to decode JSON object'')) < 500)"
  by code_simp


subsection \<open>C8: empty findings\<close>

text \<open>
  C8. When the first generation call returns a top candidate with no blocked rating
  whose text is empty or made of whitespace only, the endpoint answers 500 with the
  error ``Generated code is empty'', and the assessment call is not made.
\<close>

theorem empty_findings_status_500:
  assumes "Generate m p kwargs \<in> set (calls (generate_text env request))"
    and "generate_content env m p kwargs = GenerateReturns (candidate # rest)"
    and "\<forall>rating \<in> set (candidate_safety_ratings candidate). \<not> rating_blocked rating"
    and "extract_generated_code candidate = Inr g"
    and "list_all isspace g"
  shows "status (generate_text env request) = 500
         \<and> body (generate_text env request) = [(''error'', ''Generated code is empty'')]
         \<and> (\<forall>q. Assess q \<notin> set (calls (generate_text env request)))"
proof -
  from assms(3) have unblocked: "\<not> list_ex rating_blocked (candidate_safety_ratings candidate)"
    by (simp add: list_ex_iff)
  from assms(5) have empty: "strip g = []"
    by (simp add: strip_empty_iff)
  show ?thesis
    using assms(1,2,4) unblocked empty
    by (cases rule: generate_text_cases [of request env]) (auto simp: error_response_def)
qed

text \<open>The theorem at a candidate whose parts are empty, a space and a newline.\<close>

theorem empty_findings_status_500_witness:
  "extract_generated_code (parts_candidate False [[], '' '', ''\<newline>'']) = Inr '' \<newline>''
   \<and> list_all isspace '' \<newline>''
   \<and> status (generate_text
        (mock_env example_page (GenerateReturns [parts_candidate False [[], '' '', ''\<newline>'']])
           (GenerateReturns [text_candidate example_findings]))
        example_request) = 500
   \<and> body (generate_text
        (mock_env example_page (GenerateReturns [parts_candidate False [[], '' '', ''\<newline>'']])
           (GenerateReturns [text_candidate example_findings]))
        example_request) = [(''error'', ''Generated code is empty'')]
   \<and> (\<forall>q. Assess q \<notin> set (calls (generate_text
        (mock_env example_page (GenerateReturns [parts_candidate False [[], '' '', ''\<newline>'']])
           (GenerateReturns [text_candidate example_findings]))
        example_request)))"
proof -
  let ?c = "parts_candidate False [[], '' '', ''\<newline>'']"
  let ?env = "mock_env example_page (GenerateReturns [?c])
           (GenerateReturns [text_candidate example_findings])"
  have 1: "Generate (JStr ''gemini-1.5-flash'') example_prompt []
             \<in> set (calls (generate_text ?env example_request))"
    by code_simp
  have 2: "generate_content ?env (JStr ''gemini-1.5-flash'') example_prompt []
             = GenerateReturns (?c # [])"
    by code_simp
  have 3: "\<forall>rating \<in> set (candidate_safety_ratings ?c). \<not> rating_blocked rating"
    by (simp add: parts_candidate_def)
  have 4: "extract_generated_code ?c = Inr '' \<newline>''"
    by code_simp
  have 5: "list_all isspace '' \<newline>''"
    by code_simp
  from empty_findings_status_500 [OF 1 2 3 4 5] 4 5 show ?thesis
    by simp
qed


subsection \<open>C9: the findings prompt\<close>

text \<open>
  C9. Whenever the first generation call is made, its prompt is one string: the
  persona sentence, the vulnerability category of the request (or its default), the
  normalized URL, and the first 5000 characters of the scraped page, cut at that
  length.
\<close>

theorem first_prompt_contents:
  assumes "Generate m p kwargs \<in> set (calls (generate_text env request))"
  shows "\<exists>d u v page.
           request = GetJsonReturns (JObj d)
           \<and> dict_get d ''url'' JNull = JStr u
           \<and> dict_get d ''vulnerability'' (JStr ''Cross-Site Scripting (XSS)'') = JStr v
           \<and> scrape_website env (normalize_url u) = Inr (Some page)
           \<and> p = ''You are an expert red-team specialist. ''
                 @ ''Attempt to find the following vulnerability: '' @ v @ ''. ''
                 @ ''Target URL: '' @ normalize_url u @ ''. ''
                 @ ''Analyze the following website content for vulnerabilities:\<newline>''
                 @ take 5000 page
           \<and> length (take 5000 page) = min (length page) 5000"
proof -
  have prompt: "build_prompt v url page =
      ''You are an expert red-team specialist. ''
      @ ''Attempt to find the following vulnerability: '' @ v @ ''. ''
      @ ''Target URL: '' @ url @ ''. ''
      @ ''Analyze the following website content for vulnerabilities:\<newline>''
      @ take 5000 page" for v url page
    by (simp add: build_prompt_def or_else_def)
  show ?thesis
    using assms
    by (cases rule: generate_text_cases [of request env])
      (auto simp: error_response_def prompt simp del: append.simps append_assoc)
qed

text \<open>The theorem at the request of the end-to-end scenario.\<close>

theorem first_prompt_contents_witness:
  "Generate (JStr ''gemini-1.5-flash'') example_prompt []
     \<in> set (calls (generate_text
          (mock_env example_page (GenerateReturns [text_candidate example_findings])
             (GenerateReturns [text_candidate example_findings]))
          example_request))
   \<and> (\<exists>d u v page.
         example_request = GetJsonReturns (JObj d)
         \<and> dict_get d ''url'' JNull = JStr u
         \<and> dict_get d ''vulnerability'' (JStr ''Cross-Site Scripting (XSS)'') = JStr v
         \<and> scrape_website
             (mock_env example_page (GenerateReturns [text_candidate example_findings])
                (GenerateReturns [text_candidate example_findings]))
             (normalize_url u) = Inr (Some page)
         \<and> example_prompt =
             ''You are an expert red-team specialist. ''
             @ ''Attempt to find the following vulnerability: '' @ v @ ''. ''
             @ ''Target URL: '' @ normalize_url u @ ''. ''
             @ ''Analyze the following website content for vulnerabilities:\<newline>''
             @ take 5000 page
         \<and> length (take 5000 page) = min (length page) 5000)"
proof -
  let ?env = "mock_env example_page (GenerateReturns [text_candidate example_findings])
             (GenerateReturns [text_candidate example_findings])"
  have 1: "Generate (JStr ''gemini-1.5-flash'') example_prompt []
             \<in> set (calls (generate_text ?env example_request))"
    by code_simp
  from first_prompt_contents [OF 1] 1 show ?thesis
    by (rule conjI [rotated])
qed


subsection \<open>C10: the text of a 200 response\<close>

text \<open>
  C10. In every response with status 200, \<open>text\<close> is the text extracted from the top
  candidate of the first generation call (the concatenation of its parts, when it has
  parts); that text is neither empty nor made of whitespace only, so the ``No output''
  fallback is not taken.
\<close>

theorem ok_response_text_is_findings:
  assumes "status (generate_text env request) = 200"
  shows "\<exists>m p kwargs candidate rest g.
           Generate m p kwargs \<in> set (calls (generate_text env request))
           \<and> generate_content env m p kwargs = GenerateReturns (candidate # rest)
           \<and> extract_generated_code candidate = Inr g
           \<and> (\<forall>c ps. candidate_content candidate = Has c \<and> content_parts c = Has ps
                 \<longrightarrow> g = concat (map part_text ps))
           \<and> g \<noteq> [] \<and> \<not> list_all isspace g
           \<and> or_else g ''No output'' = g
           \<and> map_of (body (generate_text env request)) ''text'' = Some g"
proof (cases rule: generate_text_cases [of request env])
  case (answered d u page v kwargs candidate rest g level analysis)
  have "Generate (dict_get d ''model'' (JStr ''gemini-1.5-flash''))
          (build_prompt v (normalize_url u) page) kwargs
        \<in> set (calls (generate_text env request))"
    by (simp add: answered(15))
  moreover note answered(9,11)
  moreover have "\<forall>c ps. candidate_content candidate = Has c \<and> content_parts c = Has ps
      \<longrightarrow> g = concat (map part_text ps)"
    using answered(11) by (auto dest: extract_generated_code_parts)
  moreover from answered(12) have "g \<noteq> []"
    by (rule strip_nonempty)
  moreover from answered(12) have "\<not> list_all isspace g"
    by (simp add: strip_empty_iff)
  moreover from \<open>g \<noteq> []\<close> have "or_else g ''No output'' = g"
    by (simp add: or_else_def)
  moreover have "map_of (body (generate_text env request)) ''text'' = Some g"
    by (simp add: answered(15))
  ultimately show ?thesis
    by blast
qed (use assms in \<open>auto simp: error_response_def\<close>)

text \<open>The theorem at findings that arrive in two parts.\<close>

theorem ok_response_text_is_findings_witness:
  "status (generate_text
     (mock_env example_page
        (GenerateReturns [parts_candidate False [''Found an XSS vector. '', ''This is medium risk.'']])
        (GenerateReturns [text_candidate example_findings]))
     example_request) = 200
   \<and> (\<exists>m p kwargs candidate rest g.
         Generate m p kwargs \<in> set (calls (generate_text
           (mock_env example_page
              (GenerateReturns [parts_candidate False [''Found an XSS vector. '', ''This is medium risk.'']])
              (GenerateReturns [text_candidate example_findings]))
           example_request))
         \<and> extract_generated_code candidate = Inr g
         \<and> g \<noteq> [] \<and> \<not> list_all isspace g
         \<and> map_of (body (generate_text
              (mock_env example_page
                 (GenerateReturns [parts_candidate False [''Found an XSS vector. '', ''This is medium risk.'']])
                 (GenerateReturns [text_candidate example_findings]))
              example_request)) ''text'' = Some g)
   \<and> map_of (body (generate_text
        (mock_env example_page
           (GenerateReturns [parts_candidate False [''Found an XSS vector. '', ''This is medium risk.'']])
           (GenerateReturns [text_candidate example_findings]))
        example_request)) ''text'' = Some example_findings"
proof -
  let ?env = "mock_env example_page
        (GenerateReturns [parts_candidate False [''Found an XSS vector. '', ''This is medium risk.'']])
        (GenerateReturns [text_candidate example_findings])"
  have 1: "status (generate_text ?env example_request) = 200"
    by code_simp
  have 2: "map_of (body (generate_text ?env example_request)) ''text'' = Some example_findings"
    by code_simp
  from ok_response_text_is_findings [OF 1] have
    "\<exists>m p kwargs candidate rest g.
         Generate m p kwargs \<in> set (calls (generate_text ?env example_request))
         \<and> extract_generated_code candidate = Inr g
         \<and> g \<noteq> [] \<and> \<not> list_all isspace g
         \<and> map_of (body (generate_text ?env example_request)) ''text'' = Some g"
    by blast
  with 1 2 show ?thesis
    by blast
qed

end
